theory Spec2Isabelle
  imports Complex_Main
begin

section \<open>Invoicey: the invoice domain model and its derived computations\<close>

text \<open>
  A shallow embedding of the backend services of the invoicing application
  (\<^verbatim>\<open>invoiceService.ts\<close>, \<^verbatim>\<open>clientService.ts\<close>, \<^verbatim>\<open>invoiceNumberGenerator.ts\<close>,
  \<^verbatim>\<open>metricsService.ts\<close>, \<^verbatim>\<open>storage.ts\<close>) and of the parts of the Supabase-backed
  invoice service that the properties below are about.

  Conventions of the embedding.
  \<^item> A JavaScript \<^verbatim>\<open>number\<close> holding money, a quantity or a rate is an exact rational
    (\<^typ>\<open>rat\<close>): the arithmetic of the source is modelled without the representation
    error of IEEE doubles, and \<^verbatim>\<open>NaN\<close> and the infinities are left out. Counters and
    years are natural numbers.
  \<^item> A JavaScript string is a \<^typ>\<open>string\<close>; an optional property is an \<^typ>\<open>'a option\<close>.
  \<^item> A \<^verbatim>\<open>throw\<close> is the \<open>Inl\<close> branch of a sum; an operation that reads and writes
    the store returns its outcome together with the store it leaves behind, so that a
    write made before a \<^verbatim>\<open>throw\<close> would stay visible.
  \<^item> The clock and the random identifiers are inputs (the record \<open>env\<close>).
\<close>

subsection \<open>Numbers and rounding\<close>

type_synonym number = rat

text \<open>\<^verbatim>\<open>Math.round(x)\<close>: the nearest integer, a tie going towards \<open>+\<infinity>\<close>.\<close>

definition Math_round :: "number \<Rightarrow> int" where
  "Math_round x = \<lfloor>x + 1 / 2\<rfloor>"

text \<open>The expression \<^verbatim>\<open>Math.round(x * 100) / 100\<close> that every service uses.\<close>

definition round2 :: "number \<Rightarrow> number" where
  "round2 x = of_int (Math_round (x * 100)) / 100"



subsection \<open>Data model\<close>

record Client =
  id_c :: string
  name_c :: string
  email_c :: string
  company_c :: "string option"
  phone_c :: "string option"
  address_c :: "string option"
  createdAt_c :: string

record LineItem =
  id_li :: string
  description_li :: string
  quantity_li :: number
  rate_li :: number
  amount_li :: number

record Invoice =
  id_inv :: string
  invoiceNumber :: string
  clientId :: string
  client :: Client
  status :: string
  issueDate :: string
  dueDate :: string
  lineItems :: "LineItem list"
  subtotal :: number
  tax :: number
  total :: number
  notes_inv :: "string option"
  createdAt :: string

record ClientInput =
  name_in :: string
  email_in :: string
  company_in :: "string option"
  phone_in :: "string option"
  address_in :: "string option"

record LineItemInput =
  description :: string
  quantity :: number
  rate :: number

record InvoiceInput =
  clientId_in :: string
  issueDate_in :: string
  dueDate_in :: string
  lineItems_in :: "LineItemInput list"
  notes_in :: "string option"
  status_in :: "string option"

record ValidationResult =
  valid :: bool
  errors :: "(string \<times> string) list"

record Totals =
  subtotal_t :: number
  tax_t :: number
  total_t :: number

subsection \<open>Totals calculation\<close>

text \<open>
  The \<^verbatim>\<open>reduce\<close> of \<^verbatim>\<open>calculateTotals\<close>: a left fold from \<open>0\<close> adding
  \<^verbatim>\<open>item.quantity * item.rate\<close>.
\<close>

definition sumLineItems :: "LineItemInput list \<Rightarrow> number" where
  "sumLineItems items = foldl (\<lambda>sum item. sum + quantity item * rate item) 0 items"

text \<open>
  \<^verbatim>\<open>calculateTotals(lineItems, taxRate = 10)\<close> of \<^verbatim>\<open>invoiceService.ts\<close>; the
  argument \<open>None\<close> is the call that leaves \<^verbatim>\<open>taxRate\<close> out.
\<close>

definition calculateTotals :: "LineItemInput list \<Rightarrow> number option \<Rightarrow> Totals" where
  "calculateTotals items taxRateArg =
     (let taxRate = (case taxRateArg of None \<Rightarrow> 10 | Some r \<Rightarrow> r);
          subtotal = sumLineItems items;
          tax = subtotal * (taxRate / 100);
          total = subtotal + tax
      in \<lparr> subtotal_t = round2 subtotal, tax_t = round2 tax, total_t = round2 total \<rparr>)"

text \<open>
  \<^verbatim>\<open>calculateTotals(lineItems, taxRate = 0)\<close> of the Supabase-backed invoice service:
  the same body, the default tax rate being \<open>0\<close>.
\<close>

definition calculateTotals_supabase :: "LineItemInput list \<Rightarrow> number option \<Rightarrow> Totals" where
  "calculateTotals_supabase items taxRateArg =
     (let taxRate = (case taxRateArg of None \<Rightarrow> 0 | Some r \<Rightarrow> r);
          subtotal = sumLineItems items;
          tax = subtotal * (taxRate / 100);
          total = subtotal + tax
      in \<lparr> subtotal_t = round2 subtotal, tax_t = round2 tax, total_t = round2 total \<rparr>)"


subsection \<open>Strings\<close>

text \<open>
  The white space that \<^verbatim>\<open>String.prototype.trim\<close> removes, as far as it fits a
  \<^typ>\<open>char\<close>: tab, line feed, vertical tab, form feed, carriage return, space and the
  no-break space.
\<close>

definition isWhitespace :: "char \<Rightarrow> bool" where
  "isWhitespace c = ((of_char c :: nat) \<in> {9, 10, 11, 12, 13, 32, 160})"

definition trim :: "string \<Rightarrow> string" where
  "trim s = rev (dropWhile isWhitespace (rev (dropWhile isWhitespace s)))"

text \<open>
  The comparison \<^verbatim>\<open>a < b\<close> of two JavaScript strings: lexicographic on the code
  units, a proper prefix being smaller.
\<close>

fun str_less :: "string \<Rightarrow> string \<Rightarrow> bool" where
  "str_less [] [] = False"
| "str_less [] (y # ys) = True"
| "str_less (x # xs) [] = False"
| "str_less (x # xs) (y # ys) =
     ((of_char x :: nat) < of_char y \<or> (x = y \<and> str_less xs ys))"

text \<open>\<^verbatim>\<open>String(n)\<close> for a non-negative integer: its decimal digits.\<close>

definition digit_char :: "nat \<Rightarrow> char" where
  "digit_char d = char_of (48 + d)"

function string_of_nat :: "nat \<Rightarrow> string" where
  "string_of_nat n =
     (if n < 10 then [digit_char n] else string_of_nat (n div 10) @ [digit_char (n mod 10)])"
  by pat_completeness auto
termination
  by (relation "measure (\<lambda>n. n)") auto

declare string_of_nat.simps [simp del]

text \<open>\<^verbatim>\<open>s.padStart(n, c)\<close> for a one-character filler.\<close>

definition padStart :: "nat \<Rightarrow> char \<Rightarrow> string \<Rightarrow> string" where
  "padStart n c s = replicate (n - length s) c @ s"



subsection \<open>Arrays\<close>

text \<open>\<^verbatim>\<open>Array.prototype.findIndex\<close>, with \<open>None\<close> for the result \<open>-1\<close>.\<close>

fun findIndex :: "('a \<Rightarrow> bool) \<Rightarrow> 'a list \<Rightarrow> nat option" where
  "findIndex P [] = None"
| "findIndex P (x # xs) = (if P x then Some 0 else map_option Suc (findIndex P xs))"

text \<open>\<^verbatim>\<open>xs.splice(i, 1)\<close>: the array without its element at index \<open>i\<close>.\<close>

definition splice1 :: "nat \<Rightarrow> 'a list \<Rightarrow> 'a list" where
  "splice1 i xs = take i xs @ drop (Suc i) xs"

subsection \<open>The storage service\<close>

record CounterData =
  year :: nat
  sequence :: nat

text \<open>
  The browser store as \<^verbatim>\<open>storage.ts\<close> sees it: whether \<^verbatim>\<open>localStorage\<close> is
  available (\<^verbatim>\<open>isLocalStorageAvailable()\<close>), and the items under the keys
  \<^verbatim>\<open>invoicey_clients\<close>, \<^verbatim>\<open>invoicey_invoices\<close> and \<^verbatim>\<open>invoicey_invoice_counter_data\<close>.
  An item that is present parses to the value that was stored.
\<close>

record storage =
  available :: bool
  clients_item :: "Client list option"
  invoices_item :: "Invoice list option"
  counter_item :: "CounterData option"

text \<open>
  \<^verbatim>\<open>storage.get\<close> gives \<^verbatim>\<open>null\<close> when the store is unavailable or the key absent;
  \<^verbatim>\<open>storage.set\<close> does nothing (but warn) when the store is unavailable. A write to
  an available store is taken to succeed: the quota error that \<^verbatim>\<open>storage.set\<close> would
  also swallow is not modelled.
\<close>

definition getClients :: "storage \<Rightarrow> Client list" where
  "getClients st =
     (case (if available st then clients_item st else None) of None \<Rightarrow> [] | Some cs \<Rightarrow> cs)"

definition setClients :: "Client list \<Rightarrow> storage \<Rightarrow> storage" where
  "setClients cs st = (if available st then st\<lparr>clients_item := Some cs\<rparr> else st)"

definition getInvoices :: "storage \<Rightarrow> Invoice list" where
  "getInvoices st =
     (case (if available st then invoices_item st else None) of None \<Rightarrow> [] | Some xs \<Rightarrow> xs)"

definition setInvoices :: "Invoice list \<Rightarrow> storage \<Rightarrow> storage" where
  "setInvoices xs st = (if available st then st\<lparr>invoices_item := Some xs\<rparr> else st)"

definition getCounterData :: "storage \<Rightarrow> CounterData option" where
  "getCounterData st = (if available st then counter_item st else None)"

definition setCounterData :: "CounterData \<Rightarrow> storage \<Rightarrow> storage" where
  "setCounterData cd st = (if available st then st\<lparr>counter_item := Some cd\<rparr> else st)"

subsection \<open>Clock and identifiers\<close>

text \<open>
  What an operation reads from outside: the date \<^verbatim>\<open>getCurrentDate()\<close> (also
  \<^verbatim>\<open>getCurrentTimestamp()\<close>), the year \<^verbatim>\<open>getCurrentYear()\<close>, the value of its call of
  \<^verbatim>\<open>generateId()\<close> and the value of its \<open>k\<close>-th call of \<^verbatim>\<open>generateLineItemId()\<close>.
  The clock does not move during one operation.
\<close>

record env =
  today :: string
  currentYear :: nat
  newId :: string
  newLineItemId :: "nat \<Rightarrow> string"

subsection \<open>Invoice number generator\<close>

definition getNextSequence :: "env \<Rightarrow> storage \<Rightarrow> nat" where
  "getNextSequence e st =
     (case getCounterData st of
        None \<Rightarrow> 1
      | Some counterData \<Rightarrow>
          if year counterData \<noteq> currentYear e then 1 else sequence counterData + 1)"

definition formatInvoiceNumber :: "nat \<Rightarrow> nat \<Rightarrow> string" where
  "formatInvoiceNumber y n =
     ''INV-'' @ string_of_nat y @ ''-'' @ padStart 3 (CHR ''0'') (string_of_nat n)"

definition generate :: "env \<Rightarrow> storage \<Rightarrow> string \<times> storage" where
  "generate e st =
     (let n = getNextSequence e st;
          st' = setCounterData \<lparr> year = currentYear e, sequence = n \<rparr> st
      in (formatInvoiceNumber (currentYear e) n, st'))"

subsection \<open>Errors\<close>

text \<open>
  The three kinds of \<^verbatim>\<open>Error\<close> that the services throw: \<^verbatim>\<open>Validation failed: ...\<close>
  with the field errors, \<^verbatim>\<open>Invoice with ID "..." not found\<close> and
  \<^verbatim>\<open>Client with ID "..." not found\<close>.
\<close>

datatype error =
    ValidationFailed "(string \<times> string) list"
  | InvoiceNotFound string
  | ClientNotFound string

subsection \<open>Client service\<close>

definition validateClient :: "ClientInput \<Rightarrow> ValidationResult" where
  "validateClient input =
     (let errs1 = (if name_in input = [] \<or> trim (name_in input) = []
                   then [(''name'', ''Name is required'')] else []);
          errs2 = (if email_in input = [] \<or> trim (email_in input) = []
                   then [(''email'', ''Email is required'')] else []);
          errs = errs1 @ errs2
      in \<lparr> valid = (length errs = 0), errors = errs \<rparr>)"

definition createClient :: "env \<Rightarrow> ClientInput \<Rightarrow> storage \<Rightarrow> (error + Client) \<times> storage" where
  "createClient e input st =
     (let validation = validateClient input in
      if \<not> valid validation then (Inl (ValidationFailed (errors validation)), st)
      else
        (let clients = getClients st;
             newClient = \<lparr> id_c = newId e,
                           name_c = trim (name_in input),
                           email_c = trim (email_in input),
                           company_c = map_option trim (company_in input),
                           phone_c = map_option trim (phone_in input),
                           address_c = map_option trim (address_in input),
                           createdAt_c = today e \<rparr>
         in (Inr newClient, setClients (clients @ [newClient]) st)))"

definition updateClient :: "string \<Rightarrow> ClientInput \<Rightarrow> storage \<Rightarrow> (error + Client) \<times> storage" where
  "updateClient cid input st =
     (let validation = validateClient input in
      if \<not> valid validation then (Inl (ValidationFailed (errors validation)), st)
      else
        (let clients = getClients st in
         case findIndex (\<lambda>c. id_c c = cid) clients of
           None \<Rightarrow> (Inl (ClientNotFound cid), st)
         | Some index \<Rightarrow>
             (let existingClient = clients ! index;
                  updatedClient = existingClient
                    \<lparr> name_c := trim (name_in input),
                      email_c := trim (email_in input),
                      company_c := map_option trim (company_in input),
                      phone_c := map_option trim (phone_in input),
                      address_c := map_option trim (address_in input),
                      id_c := id_c existingClient,
                      createdAt_c := createdAt_c existingClient \<rparr>
              in (Inr updatedClient, setClients (clients[index := updatedClient]) st))))"

definition deleteClient :: "string \<Rightarrow> storage \<Rightarrow> (error + unit) \<times> storage" where
  "deleteClient cid st =
     (let clients = getClients st in
      case findIndex (\<lambda>c. id_c c = cid) clients of
        None \<Rightarrow> (Inl (ClientNotFound cid), st)
      | Some index \<Rightarrow> (Inr (), setClients (splice1 index clients) st))"

subsection \<open>Invoice service\<close>

definition validate :: "InvoiceInput \<Rightarrow> ValidationResult" where
  "validate input =
     (let errs1 = (if clientId_in input = [] \<or> trim (clientId_in input) = []
                   then [(''clientId'', ''Please select a client'')] else []);
          errs2 = (if length (lineItems_in input) = 0
                   then [(''lineItems'', ''At least one line item is required'')]
                   else
                     (let hasValidLineItem =
                            list_ex (\<lambda>item. description item \<noteq> [] \<and> trim (description item) \<noteq> [])
                              (lineItems_in input)
                      in if \<not> hasValidLineItem
                         then [(''lineItems'', ''At least one line item must have a description'')]
                         else []));
          errs = errs1 @ errs2
      in \<lparr> valid = (length errs = 0), errors = errs \<rparr>)"

definition createLineItem :: "string \<Rightarrow> LineItemInput \<Rightarrow> LineItem" where
  "createLineItem lid input =
     \<lparr> id_li = lid,
       description_li = description input,
       quantity_li = quantity input,
       rate_li = rate input,
       amount_li = round2 (quantity input * rate input) \<rparr>"

text \<open>
  \<^verbatim>\<open>input.lineItems.map(createLineItem)\<close>: the \<open>k\<close>-th line item takes the \<open>k\<close>-th
  generated line-item identifier.
\<close>

definition createLineItems :: "env \<Rightarrow> LineItemInput list \<Rightarrow> LineItem list" where
  "createLineItems e items =
     map (\<lambda>(k, item). createLineItem (newLineItemId e k) item) (enumerate 0 items)"

text \<open>\<^verbatim>\<open>input.status || dflt\<close>: an absent or empty status gives the default.\<close>

definition statusOr :: "string option \<Rightarrow> string \<Rightarrow> string" where
  "statusOr s dflt = (case s of None \<Rightarrow> dflt | Some v \<Rightarrow> if v = [] then dflt else v)"

definition create :: "env \<Rightarrow> InvoiceInput \<Rightarrow> Client list \<Rightarrow> storage \<Rightarrow> (error + Invoice) \<times> storage" where
  "create e input clients st =
     (let validation = validate input in
      if \<not> valid validation then (Inl (ValidationFailed (errors validation)), st)
      else
        case find (\<lambda>c. id_c c = clientId_in input) clients of
          None \<Rightarrow> (Inl (ClientNotFound (clientId_in input)), st)
        | Some cl \<Rightarrow>
            (let invoices = getInvoices st;
                 items = createLineItems e (lineItems_in input);
                 totals = calculateTotals (lineItems_in input) None;
                 (number, st1) = generate e st;
                 newInvoice =
                   \<lparr> id_inv = newId e,
                     invoiceNumber = number,
                     clientId = clientId_in input,
                     client = cl,
                     status = statusOr (status_in input) ''draft'',
                     issueDate = issueDate_in input,
                     dueDate = dueDate_in input,
                     lineItems = items,
                     subtotal = subtotal_t totals,
                     tax = tax_t totals,
                     total = total_t totals,
                     notes_inv = notes_in input,
                     createdAt = today e \<rparr>
             in (Inr newInvoice, setInvoices (invoices @ [newInvoice]) st1)))"

definition update :: "env \<Rightarrow> string \<Rightarrow> InvoiceInput \<Rightarrow> Client list \<Rightarrow> storage \<Rightarrow> (error + Invoice) \<times> storage" where
  "update e iid input clients st =
     (let validation = validate input in
      if \<not> valid validation then (Inl (ValidationFailed (errors validation)), st)
      else
        (let invoices = getInvoices st in
         case findIndex (\<lambda>invoice. id_inv invoice = iid) invoices of
           None \<Rightarrow> (Inl (InvoiceNotFound iid), st)
         | Some index \<Rightarrow>
             (case find (\<lambda>c. id_c c = clientId_in input) clients of
                None \<Rightarrow> (Inl (ClientNotFound (clientId_in input)), st)
              | Some cl \<Rightarrow>
                  (let existingInvoice = invoices ! index;
                       items = createLineItems e (lineItems_in input);
                       totals = calculateTotals (lineItems_in input) None;
                       updatedInvoice = existingInvoice
                         \<lparr> clientId := clientId_in input,
                           client := cl,
                           status := statusOr (status_in input) (status existingInvoice),
                           issueDate := issueDate_in input,
                           dueDate := dueDate_in input,
                           lineItems := items,
                           subtotal := subtotal_t totals,
                           tax := tax_t totals,
                           total := total_t totals,
                           notes_inv := notes_in input,
                           id_inv := id_inv existingInvoice,
                           invoiceNumber := invoiceNumber existingInvoice,
                           createdAt := createdAt existingInvoice \<rparr>
                   in (Inr updatedInvoice, setInvoices (invoices[index := updatedInvoice]) st)))))"

definition deleteInvoice :: "string \<Rightarrow> storage \<Rightarrow> (error + unit) \<times> storage" where
  "deleteInvoice iid st =
     (let invoices = getInvoices st in
      case findIndex (\<lambda>invoice. id_inv invoice = iid) invoices of
        None \<Rightarrow> (Inl (InvoiceNotFound iid), st)
      | Some index \<Rightarrow> (Inr (), setInvoices (splice1 index invoices) st))"

definition markAsPaid :: "string \<Rightarrow> storage \<Rightarrow> (error + Invoice) \<times> storage" where
  "markAsPaid iid st =
     (let invoices = getInvoices st in
      case findIndex (\<lambda>invoice. id_inv invoice = iid) invoices of
        None \<Rightarrow> (Inl (InvoiceNotFound iid), st)
      | Some index \<Rightarrow>
          (let invoice = invoices ! index;
               updatedInvoice = invoice\<lparr> status := ''paid'' \<rparr>
           in (Inr updatedInvoice, setInvoices (invoices[index := updatedInvoice]) st)))"

definition markAsSent :: "string \<Rightarrow> storage \<Rightarrow> (error + Invoice) \<times> storage" where
  "markAsSent iid st =
     (let invoices = getInvoices st in
      case findIndex (\<lambda>invoice. id_inv invoice = iid) invoices of
        None \<Rightarrow> (Inl (InvoiceNotFound iid), st)
      | Some index \<Rightarrow>
          (let invoice = invoices ! index;
               updatedInvoice = invoice\<lparr> status := ''sent'' \<rparr>
           in (Inr updatedInvoice, setInvoices (invoices[index := updatedInvoice]) st)))"

text \<open>
  \<^verbatim>\<open>checkOverdue\<close>: the test of the \<^verbatim>\<open>map\<close> callback, the mapped collection, and
  the flag \<^verbatim>\<open>hasChanges\<close>, which is set exactly when the test holds of some invoice.
\<close>

definition isOverdue :: "string \<Rightarrow> Invoice \<Rightarrow> bool" where
  "isOverdue tdy invoice = (status invoice = ''sent'' \<and> str_less (dueDate invoice) tdy)"

definition checkOverdue :: "env \<Rightarrow> Invoice list \<Rightarrow> storage \<Rightarrow> Invoice list \<times> storage" where
  "checkOverdue e invoices st =
     (let tdy = today e;
          updatedInvoices =
            map (\<lambda>invoice. if isOverdue tdy invoice then invoice\<lparr> status := ''overdue'' \<rparr> else invoice)
              invoices;
          hasChanges = list_ex (isOverdue tdy) invoices
      in (updatedInvoices, if hasChanges then setInvoices updatedInvoices st else st))"

definition duplicate :: "env \<Rightarrow> string \<Rightarrow> Client list \<Rightarrow> storage \<Rightarrow> (error + Invoice) \<times> storage" where
  "duplicate e iid clients st =
     (let invoices = getInvoices st in
      case find (\<lambda>invoice. id_inv invoice = iid) invoices of
        None \<Rightarrow> (Inl (InvoiceNotFound iid), st)
      | Some original \<Rightarrow>
          (case find (\<lambda>c. id_c c = clientId original) clients of
             None \<Rightarrow> (Inl (ClientNotFound (clientId original)), st)
           | Some cl \<Rightarrow>
               (let tdy = today e;
                    newLineItems =
                      map (\<lambda>(k, item).
                             \<lparr> id_li = newLineItemId e k,
                               description_li = description_li item,
                               quantity_li = quantity_li item,
                               rate_li = rate_li item,
                               amount_li = amount_li item \<rparr>)
                        (enumerate 0 (lineItems original));
                    (number, st1) = generate e st;
                    newInvoice =
                      \<lparr> id_inv = newId e,
                        invoiceNumber = number,
                        clientId = clientId original,
                        client = cl,
                        status = ''draft'',
                        issueDate = tdy,
                        dueDate = dueDate original,
                        lineItems = newLineItems,
                        subtotal = subtotal original,
                        tax = tax original,
                        total = total original,
                        notes_inv = notes_inv original,
                        createdAt = tdy \<rparr>
                in (Inr newInvoice, setInvoices (invoices @ [newInvoice]) st1))))"

subsection \<open>Metrics service\<close>




subsection \<open>The Supabase-backed creation of an invoice\<close>

text \<open>
  The tables \<^verbatim>\<open>invoices\<close>, \<^verbatim>\<open>line_items\<close> and \<^verbatim>\<open>invoice_sequences\<close> that
  \<^verbatim>\<open>invoiceService.create\<close> of the Supabase-backed service writes. The time stamps that
  the database fills in are left out of the rows.
\<close>

record InvoiceRow =
  id_r :: string
  user_id_r :: string
  client_id_r :: "string option"
  invoice_number_r :: string
  status_r :: string
  issue_date_r :: string
  due_date_r :: string
  subtotal_r :: number
  tax_r :: number
  total_r :: number
  notes_r :: "string option"

record LineItemRow =
  id_lr :: string
  invoice_id_lr :: string
  description_lr :: string
  quantity_lr :: number
  rate_lr :: number
  amount_lr :: number

record SequenceRow =
  user_id_s :: string
  last_number :: nat

record database =
  invoices_tbl :: "InvoiceRow list"
  line_items_tbl :: "LineItemRow list"
  invoice_sequences_tbl :: "SequenceRow list"

text \<open>
  What the Supabase client answers during one call: the signed-in user
  (\<^verbatim>\<open>supabase.auth.getUser()\<close>), the ids that the database gives to the inserted
  invoice and to its \<open>k\<close>-th line item, and which of the requests come back with an
  error. The client is a library outside the repository; a request without error has
  the effect on the table that its name says.
\<close>

record supabase =
  user :: "string option"
  rowId :: string
  lineItemRowId :: "nat \<Rightarrow> string"
  sequenceFetchError :: bool
  sequenceWriteError :: bool
  invoiceInsertError :: bool
  lineItemsInsertError :: bool
  rollbackDeleteError :: bool

text \<open>
  The errors thrown: \<^verbatim>\<open>You must be logged in ...\<close> and the messages of
  \<^verbatim>\<open>handleError\<close>, which all stand for a failed request.
\<close>

datatype supabase_error = NotLoggedIn | DatabaseError

definition formatSequenceNumber :: "nat \<Rightarrow> string" where
  "formatSequenceNumber n = ''INV-'' @ padStart 4 (CHR ''0'') (string_of_nat n)"

definition generateInvoiceNumber :: "supabase \<Rightarrow> database \<Rightarrow> (supabase_error + string) \<times> database" where
  "generateInvoiceNumber sb db =
     (case user sb of
        None \<Rightarrow> (Inl NotLoggedIn, db)
      | Some userId \<Rightarrow>
          (case find (\<lambda>r. user_id_s r = userId) (invoice_sequences_tbl db) of
             None \<Rightarrow>
               if sequenceFetchError sb then (Inl DatabaseError, db)
               else if sequenceWriteError sb then (Inl DatabaseError, db)
               else (Inr (formatSequenceNumber 1),
                     db\<lparr> invoice_sequences_tbl :=
                           invoice_sequences_tbl db @ [\<lparr> user_id_s = userId, last_number = 1 \<rparr>] \<rparr>)
           | Some sequenceRow \<Rightarrow>
               if sequenceFetchError sb then (Inl DatabaseError, db)
               else
                 (let nextNumber = last_number sequenceRow + 1 in
                  if sequenceWriteError sb then (Inl DatabaseError, db)
                  else (Inr (formatSequenceNumber nextNumber),
                        db\<lparr> invoice_sequences_tbl :=
                              map (\<lambda>r. if user_id_s r = userId then r\<lparr> last_number := nextNumber \<rparr>
                                        else r)
                                (invoice_sequences_tbl db) \<rparr>))))"

text \<open>
  \<^verbatim>\<open>create\<close> of the Supabase-backed service, up to its final read
  \<^verbatim>\<open>getById(invoice.id)\<close>, of which the model returns the invoice row and its line-item
  rows.
\<close>

definition create_supabase ::
  "supabase \<Rightarrow> InvoiceInput \<Rightarrow> database \<Rightarrow> (supabase_error + InvoiceRow \<times> LineItemRow list) \<times> database" where
  "create_supabase sb input db =
     (case user sb of
        None \<Rightarrow> (Inl NotLoggedIn, db)
      | Some userId \<Rightarrow>
          (case generateInvoiceNumber sb db of
             (Inl err, db1) \<Rightarrow> (Inl err, db1)
           | (Inr number, db1) \<Rightarrow>
               (let totals = calculateTotals_supabase (lineItems_in input) None in
                if invoiceInsertError sb then (Inl DatabaseError, db1)
                else
                  (let invoice =
                         \<lparr> id_r = rowId sb,
                           user_id_r = userId,
                           client_id_r = (if clientId_in input = [] then None
                                          else Some (clientId_in input)),
                           invoice_number_r = number,
                           status_r = statusOr (status_in input) ''draft'',
                           issue_date_r = issueDate_in input,
                           due_date_r = dueDate_in input,
                           subtotal_r = subtotal_t totals,
                           tax_r = tax_t totals,
                           total_r = total_t totals,
                           notes_r = notes_in input \<rparr>;
                       db2 = db1\<lparr> invoices_tbl := invoices_tbl db1 @ [invoice] \<rparr>
                   in if length (lineItems_in input) > 0 then
                        (let lineItemsToInsert =
                               map (\<lambda>(k, item).
                                      \<lparr> id_lr = lineItemRowId sb k,
                                        invoice_id_lr = id_r invoice,
                                        description_lr = description item,
                                        quantity_lr = quantity item,
                                        rate_lr = rate item,
                                        amount_lr = quantity item * rate item \<rparr>)
                                 (enumerate 0 (lineItems_in input))
                         in if lineItemsInsertError sb then
                              (Inl DatabaseError,
                               if rollbackDeleteError sb then db2
                               else db2\<lparr> invoices_tbl :=
                                          filter (\<lambda>r. id_r r \<noteq> id_r invoice) (invoices_tbl db2) \<rparr>)
                            else
                              (Inr (invoice, lineItemsToInsert),
                               db2\<lparr> line_items_tbl := line_items_tbl db2 @ lineItemsToInsert \<rparr>))
                      else (Inr (invoice, []), db2)))))"

subsection \<open>Relations between stored collections\<close>

text \<open>
  Two stored collections, before and after an operation, that hold invoices of the same
  ids position by position, such that no invoice has become a \<open>draft\<close>, respectively
  such that every \<open>paid\<close> invoice is still \<open>paid\<close>.
\<close>

definition noRevertToDraft :: "Invoice list \<Rightarrow> Invoice list \<Rightarrow> bool" where
  "noRevertToDraft old new =
     list_all2 (\<lambda>a b. id_inv b = id_inv a \<and> (status b = ''draft'' \<longrightarrow> status a = ''draft'')) old new"

definition paidStaysPaid :: "Invoice list \<Rightarrow> Invoice list \<Rightarrow> bool" where
  "paidStaysPaid old new =
     list_all2 (\<lambda>a b. id_inv b = id_inv a \<and> (status a = ''paid'' \<longrightarrow> status b = ''paid'')) old new"

text \<open>Two invoices that agree on every field other than \<open>status\<close>.\<close>

definition sameButStatus :: "Invoice \<Rightarrow> Invoice \<Rightarrow> bool" where
  "sameButStatus new old =
     (id_inv new = id_inv old \<and> invoiceNumber new = invoiceNumber old
      \<and> clientId new = clientId old \<and> client new = client old
      \<and> issueDate new = issueDate old \<and> dueDate new = dueDate old
      \<and> lineItems new = lineItems old \<and> subtotal new = subtotal old \<and> tax new = tax old
      \<and> total new = total old \<and> notes_inv new = notes_inv old \<and> createdAt new = createdAt old)"

subsection \<open>Test data\<close>

text \<open>
  The fixtures of \<^verbatim>\<open>services.test.ts\<close>: the mock client of the invoice tests, and
  the two clients and four invoices of the metrics test. They serve as the concrete
  inputs at which the theorems below are instantiated.
\<close>

definition mockClient :: Client where
  "mockClient = \<lparr> id_c = ''client_1'', name_c = ''Test Client'', email_c = ''test@example.com'',
                  company_c = None, phone_c = None, address_c = None, createdAt_c = ''2026-01-01'' \<rparr>"

definition testClient1 :: Client where
  "testClient1 = \<lparr> id_c = ''1'', name_c = ''Client 1'', email_c = ''c1@example.com'',
                   company_c = None, phone_c = None, address_c = None, createdAt_c = ''2026-01-01'' \<rparr>"


definition testInvoice1 :: Invoice where
  "testInvoice1 = \<lparr> id_inv = ''inv1'', invoiceNumber = ''INV-2026-001'', clientId = ''1'',
                    client = testClient1, status = ''paid'', issueDate = ''2026-01-01'',
                    dueDate = ''2026-01-31'', lineItems = [], subtotal = 100, tax = 10, total = 110,
                    notes_inv = None, createdAt = ''2026-01-01'' \<rparr>"

definition testInvoice2 :: Invoice where
  "testInvoice2 = \<lparr> id_inv = ''inv2'', invoiceNumber = ''INV-2026-002'', clientId = ''1'',
                    client = testClient1, status = ''sent'', issueDate = ''2026-01-01'',
                    dueDate = ''2026-01-31'', lineItems = [], subtotal = 200, tax = 20, total = 220,
                    notes_inv = None, createdAt = ''2026-01-02'' \<rparr>"



text \<open>
  The invoice of the duplication test after its creation (one line item, status
  \<open>sent\<close>), and the store holding it.
\<close>

definition sentInvoice :: Invoice where
  "sentInvoice = \<lparr> id_inv = ''invoice_1'', invoiceNumber = ''INV-2026-001'',
                   clientId = ''client_1'', client = mockClient, status = ''sent'',
                   issueDate = ''2026-01-01'', dueDate = ''2026-01-31'',
                   lineItems = [\<lparr> id_li = ''item_a'', description_li = ''Test'', quantity_li = 1,
                                  rate_li = 100, amount_li = 100 \<rparr>],
                   subtotal = 100, tax = 10, total = 110, notes_inv = None,
                   createdAt = ''2026-01-01'' \<rparr>"

definition sentStorage :: storage where
  "sentStorage = \<lparr> available = True, clients_item = Some [mockClient],
                   invoices_item = Some [sentInvoice],
                   counter_item = Some \<lparr> year = 2026, sequence = 1 \<rparr> \<rparr>"

text \<open>The input with which the tests create a sent invoice.\<close>

definition testInput :: InvoiceInput where
  "testInput = \<lparr> clientId_in = ''client_1'', issueDate_in = ''2026-01-01'',
                 dueDate_in = ''2026-01-31'',
                 lineItems_in = [\<lparr> description = ''Test'', quantity = 1, rate = 100 \<rparr>],
                 notes_in = None, status_in = Some ''sent'' \<rparr>"

text \<open>A day after the due dates of the fixtures, with fixed generated identifiers.\<close>

definition testEnv :: env where
  "testEnv = \<lparr> today = ''2026-02-01'', currentYear = 2026, newId = ''invoice_new'',
               newLineItemId = (\<lambda>k. ''item_'' @ string_of_nat k) \<rparr>"

text \<open>The store after \<^verbatim>\<open>storage.clearAll()\<close>, and a browser without \<^verbatim>\<open>localStorage\<close>.\<close>

definition emptyStorage :: storage where
  "emptyStorage = \<lparr> available = True, clients_item = None, invoices_item = None,
                    counter_item = None \<rparr>"


text \<open>The store after creating that invoice in an empty store.\<close>

definition createdStorage :: storage where
  "createdStorage = snd (create testEnv testInput [mockClient] emptyStorage)"

text \<open>
  A database in which the user has used five numbers, and a call in which only the
  insertion of the line items fails.
\<close>

definition testDatabase :: database where
  "testDatabase = \<lparr> invoices_tbl = [], line_items_tbl = [],
                    invoice_sequences_tbl = [\<lparr> user_id_s = ''user_1'', last_number = 5 \<rparr>] \<rparr>"

definition lineItemsFail :: supabase where
  "lineItemsFail = \<lparr> user = Some ''user_1'', rowId = ''row_1'',
                     lineItemRowId = (\<lambda>k. ''line_'' @ string_of_nat k),
                     sequenceFetchError = False, sequenceWriteError = False,
                     invoiceInsertError = False, lineItemsInsertError = True,
                     rollbackDeleteError = False \<rparr>"

section \<open>Properties\<close>

subsection \<open>Totals\<close>



lemma calculateTotals_supabase_default:
  "calculateTotals_supabase items None = calculateTotals_supabase items (Some 0)"
  by (simp add: calculateTotals_supabase_def)






subsection \<open>Overdue detection\<close>

lemma isOverdue_overdue: "\<not> isOverdue tdy (invoice\<lparr> status := ''overdue'' \<rparr>)"
  by (simp add: isOverdue_def)

lemma checkOverdue_fst:
  "fst (checkOverdue e invoices st) =
     map (\<lambda>invoice. if isOverdue (today e) invoice then invoice\<lparr> status := ''overdue'' \<rparr> else invoice)
       invoices"
  by (simp add: checkOverdue_def Let_def)

lemma checkOverdue_settled:
  "list_ex (isOverdue (today e)) (fst (checkOverdue e invoices st)) = False"
  by (induction invoices) (simp_all add: checkOverdue_fst isOverdue_overdue)

text \<open>
  C2: \<^verbatim>\<open>checkOverdue\<close> returns a collection of the same length in which, position by
  position, an invoice that had status \<open>sent\<close> and a due date lexically before today
  is the original with status \<open>overdue\<close> (no other field changed), and every other
  invoice is the original. Applied a second time, on the same day, to its own result it
  returns that result again and writes nothing.
\<close>

theorem checkOverdue_correct:
  fixes e :: env and invoices :: "Invoice list" and st st' :: storage
  defines "result \<equiv> fst (checkOverdue e invoices st)"
  shows "length result = length invoices
       \<and> (\<forall>i < length invoices.
            (status (invoices ! i) = ''sent'' \<and> str_less (dueDate (invoices ! i)) (today e)
               \<longrightarrow> result ! i = (invoices ! i)\<lparr> status := ''overdue'' \<rparr>
                 \<and> status (result ! i) = ''overdue'')
          \<and> (\<not> (status (invoices ! i) = ''sent'' \<and> str_less (dueDate (invoices ! i)) (today e))
               \<longrightarrow> result ! i = invoices ! i))
       \<and> checkOverdue e result st' = (result, st')"
proof -
  have len: "length result = length invoices"
    by (simp add: result_def checkOverdue_fst)
  have nth: "result ! i =
      (if isOverdue (today e) (invoices ! i) then (invoices ! i)\<lparr> status := ''overdue'' \<rparr>
       else invoices ! i)"
    if "i < length invoices" for i
    using that by (simp add: result_def checkOverdue_fst)
  have settled: "\<not> list_ex (isOverdue (today e)) result"
    by (simp add: result_def checkOverdue_settled)
  then have "map (\<lambda>invoice. if isOverdue (today e) invoice then invoice\<lparr> status := ''overdue'' \<rparr>
                             else invoice) result = result"
    by (induction result) simp_all
  with settled have idem: "checkOverdue e result st' = (result, st')"
    by (simp add: checkOverdue_def Let_def)
  show ?thesis
    using len idem by (simp add: nth isOverdue_def)
qed

theorem checkOverdue_correct_witness:
  "status testInvoice2 = ''sent'' \<and> str_less (dueDate testInvoice2) (today testEnv)
   \<and> status testInvoice1 \<noteq> ''sent''
   \<and> fst (checkOverdue testEnv [testInvoice1, testInvoice2] emptyStorage) ! 1
       = testInvoice2\<lparr> status := ''overdue'' \<rparr>
   \<and> fst (checkOverdue testEnv [testInvoice1, testInvoice2] emptyStorage) ! 0 = testInvoice1"
proof -
  have h: "status testInvoice2 = ''sent'' \<and> str_less (dueDate testInvoice2) (today testEnv)
           \<and> status testInvoice1 \<noteq> ''sent''"
    by (simp add: testInvoice1_def testInvoice2_def testEnv_def)
  from checkOverdue_correct [where e = testEnv and invoices = "[testInvoice1, testInvoice2]"
      and st = emptyStorage and st' = emptyStorage]
  have "\<forall>i<2. (status ([testInvoice1, testInvoice2] ! i) = ''sent''
                  \<and> str_less (dueDate ([testInvoice1, testInvoice2] ! i)) (today testEnv)
              \<longrightarrow> fst (checkOverdue testEnv [testInvoice1, testInvoice2] emptyStorage) ! i
                    = ([testInvoice1, testInvoice2] ! i)\<lparr> status := ''overdue'' \<rparr>)
            \<and> (\<not> (status ([testInvoice1, testInvoice2] ! i) = ''sent''
                  \<and> str_less (dueDate ([testInvoice1, testInvoice2] ! i)) (today testEnv))
              \<longrightarrow> fst (checkOverdue testEnv [testInvoice1, testInvoice2] emptyStorage) ! i
                    = [testInvoice1, testInvoice2] ! i)"
    by simp
  then have "fst (checkOverdue testEnv [testInvoice1, testInvoice2] emptyStorage) ! 1
               = testInvoice2\<lparr> status := ''overdue'' \<rparr>
           \<and> fst (checkOverdue testEnv [testInvoice1, testInvoice2] emptyStorage) ! 0 = testInvoice1"
    using h by (simp add: numeral_2_eq_2 All_less_Suc)
  with h show ?thesis by simp
qed

subsection \<open>Status changes\<close>

lemma findIndex_Some:
  "findIndex P xs = Some i \<Longrightarrow> i < length xs \<and> P (xs ! i) \<and> (\<forall>j<i. \<not> P (xs ! j))"
proof (induction xs arbitrary: i)
  case Nil
  then show ?case by simp
next
  case (Cons x xs)
  show ?case
  proof (cases "P x")
    case True
    with Cons.prems show ?thesis by simp
  next
    case False
    with Cons.prems obtain k where k: "findIndex P xs = Some k" "i = Suc k"
      by auto
    from Cons.IH [OF k(1)] False k(2) show ?thesis
      by (auto simp: nth_Cons less_Suc_eq_0_disj split: nat.splits)
  qed
qed

lemma findIndex_None: "findIndex P xs = None \<longleftrightarrow> (\<forall>x\<in>set xs. \<not> P x)"
  by (induction xs) auto

lemma findIndex_ex: "\<exists>x\<in>set xs. P x \<Longrightarrow> \<exists>i. findIndex P xs = Some i"
  using findIndex_None [of P xs] by (cases "findIndex P xs") auto

lemma getInvoices_nonempty:
  "i < length (getInvoices st) \<Longrightarrow> available st"
  by (auto simp: getInvoices_def split: if_splits)

lemma getInvoices_setInvoices: "available st \<Longrightarrow> getInvoices (setInvoices xs st) = xs"
  by (simp add: getInvoices_def setInvoices_def)

lemma getClients_setInvoices: "getClients (setInvoices xs st) = getClients st"
  by (simp add: getClients_def setInvoices_def)

lemma getCounterData_setInvoices: "getCounterData (setInvoices xs st) = getCounterData st"
  by (simp add: getCounterData_def setInvoices_def)

lemma markAsPaid_found:
  "findIndex (\<lambda>invoice. id_inv invoice = iid) (getInvoices st) = Some i \<Longrightarrow>
   markAsPaid iid st =
     (Inr ((getInvoices st ! i)\<lparr> status := ''paid'' \<rparr>),
      setInvoices ((getInvoices st)[i := (getInvoices st ! i)\<lparr> status := ''paid'' \<rparr>]) st)"
  by (simp add: markAsPaid_def Let_def)

lemma markAsSent_found:
  "findIndex (\<lambda>invoice. id_inv invoice = iid) (getInvoices st) = Some i \<Longrightarrow>
   markAsSent iid st =
     (Inr ((getInvoices st ! i)\<lparr> status := ''sent'' \<rparr>),
      setInvoices ((getInvoices st)[i := (getInvoices st ! i)\<lparr> status := ''sent'' \<rparr>]) st)"
  by (simp add: markAsSent_def Let_def)

text \<open>
  C9: when the stored collection contains an invoice with the given id, \<^verbatim>\<open>markAsPaid\<close>
  (respectively \<^verbatim>\<open>markAsSent\<close>) returns the invoice at the first position \<open>i\<close> holding
  that id with its status set to \<open>paid\<close> (respectively \<open>sent\<close>) and every other field
  as before; the stored collection keeps its length and, at every other position, its
  invoice; the stored clients and the sequence counter are untouched.
\<close>

theorem markAs_frame:
  assumes "\<exists>invoice\<in>set (getInvoices st). id_inv invoice = iid"
  shows "\<exists>i<length (getInvoices st).
           id_inv (getInvoices st ! i) = iid \<and> (\<forall>j<i. id_inv (getInvoices st ! j) \<noteq> iid)
         \<and> fst (markAsPaid iid st) = Inr (getInvoices (snd (markAsPaid iid st)) ! i)
            \<and> status (getInvoices (snd (markAsPaid iid st)) ! i) = ''paid''
            \<and> sameButStatus (getInvoices (snd (markAsPaid iid st)) ! i) (getInvoices st ! i)
            \<and> length (getInvoices (snd (markAsPaid iid st))) = length (getInvoices st)
            \<and> (\<forall>j<length (getInvoices st). j \<noteq> i \<longrightarrow>
                  getInvoices (snd (markAsPaid iid st)) ! j = getInvoices st ! j)
            \<and> getClients (snd (markAsPaid iid st)) = getClients st
            \<and> getCounterData (snd (markAsPaid iid st)) = getCounterData st
         \<and> fst (markAsSent iid st) = Inr (getInvoices (snd (markAsSent iid st)) ! i)
            \<and> status (getInvoices (snd (markAsSent iid st)) ! i) = ''sent''
            \<and> sameButStatus (getInvoices (snd (markAsSent iid st)) ! i) (getInvoices st ! i)
            \<and> length (getInvoices (snd (markAsSent iid st))) = length (getInvoices st)
            \<and> (\<forall>j<length (getInvoices st). j \<noteq> i \<longrightarrow>
                  getInvoices (snd (markAsSent iid st)) ! j = getInvoices st ! j)
            \<and> getClients (snd (markAsSent iid st)) = getClients st
            \<and> getCounterData (snd (markAsSent iid st)) = getCounterData st"
proof -
  from assms obtain i where i: "findIndex (\<lambda>invoice. id_inv invoice = iid) (getInvoices st) = Some i"
    using findIndex_ex [of "getInvoices st" "\<lambda>invoice. id_inv invoice = iid"] by blast
  from findIndex_Some [OF i] have len: "i < length (getInvoices st)"
    and idi: "id_inv (getInvoices st ! i) = iid"
    and first: "\<forall>j<i. id_inv (getInvoices st ! j) \<noteq> iid"
    by simp_all
  from len have av: "available st"
    by (rule getInvoices_nonempty)
  have paid: "fst (markAsPaid iid st) = Inr (getInvoices (snd (markAsPaid iid st)) ! i)
            \<and> status (getInvoices (snd (markAsPaid iid st)) ! i) = ''paid''
            \<and> sameButStatus (getInvoices (snd (markAsPaid iid st)) ! i) (getInvoices st ! i)
            \<and> length (getInvoices (snd (markAsPaid iid st))) = length (getInvoices st)
            \<and> (\<forall>j<length (getInvoices st). j \<noteq> i \<longrightarrow>
                  getInvoices (snd (markAsPaid iid st)) ! j = getInvoices st ! j)
            \<and> getClients (snd (markAsPaid iid st)) = getClients st
            \<and> getCounterData (snd (markAsPaid iid st)) = getCounterData st"
    using len av
    by (simp add: markAsPaid_found [OF i] getInvoices_setInvoices getClients_setInvoices
        getCounterData_setInvoices sameButStatus_def)
  have sent: "fst (markAsSent iid st) = Inr (getInvoices (snd (markAsSent iid st)) ! i)
            \<and> status (getInvoices (snd (markAsSent iid st)) ! i) = ''sent''
            \<and> sameButStatus (getInvoices (snd (markAsSent iid st)) ! i) (getInvoices st ! i)
            \<and> length (getInvoices (snd (markAsSent iid st))) = length (getInvoices st)
            \<and> (\<forall>j<length (getInvoices st). j \<noteq> i \<longrightarrow>
                  getInvoices (snd (markAsSent iid st)) ! j = getInvoices st ! j)
            \<and> getClients (snd (markAsSent iid st)) = getClients st
            \<and> getCounterData (snd (markAsSent iid st)) = getCounterData st"
    using len av
    by (simp add: markAsSent_found [OF i] getInvoices_setInvoices getClients_setInvoices
        getCounterData_setInvoices sameButStatus_def)
  from len idi first paid sent show ?thesis
    by (intro exI [of _ i]) simp
qed

theorem markAs_frame_witness:
  "getInvoices (snd (markAsPaid ''inv2''
       (emptyStorage\<lparr> invoices_item := Some [testInvoice1, testInvoice2] \<rparr>)))
     = [testInvoice1, testInvoice2\<lparr> status := ''paid'' \<rparr>]
   \<and> (\<exists>i. fst (markAsSent ''inv2''
          (emptyStorage\<lparr> invoices_item := Some [testInvoice1, testInvoice2] \<rparr>))
        = Inr (getInvoices (snd (markAsSent ''inv2''
          (emptyStorage\<lparr> invoices_item := Some [testInvoice1, testInvoice2] \<rparr>))) ! i))"
proof -
  let ?st = "emptyStorage\<lparr> invoices_item := Some [testInvoice1, testInvoice2] \<rparr>"
  have inv: "getInvoices ?st = [testInvoice1, testInvoice2]"
    by (simp add: getInvoices_def emptyStorage_def)
  have h: "\<exists>invoice\<in>set (getInvoices ?st). id_inv invoice = ''inv2''"
    unfolding inv by (simp add: testInvoice2_def)
  have run: "getInvoices (snd (markAsPaid ''inv2'' ?st))
               = [testInvoice1, testInvoice2\<lparr> status := ''paid'' \<rparr>]"
    by (simp add: markAsPaid_def inv Let_def testInvoice1_def testInvoice2_def
        getInvoices_def setInvoices_def emptyStorage_def)
  from markAs_frame [OF h] run show ?thesis
    by blast
qed

subsection \<open>Client update\<close>

lemma getClients_nonempty: "i < length (getClients st) \<Longrightarrow> available st"
  by (auto simp: getClients_def split: if_splits)

lemma getClients_setClients: "available st \<Longrightarrow> getClients (setClients cs st) = cs"
  by (simp add: getClients_def setClients_def)

lemma updateClient_found:
  "valid (validateClient input) \<Longrightarrow>
   findIndex (\<lambda>c. id_c c = cid) (getClients st) = Some i \<Longrightarrow>
   updateClient cid input st =
     (Inr ((getClients st ! i)
             \<lparr> name_c := trim (name_in input),
               email_c := trim (email_in input),
               company_c := map_option trim (company_in input),
               phone_c := map_option trim (phone_in input),
               address_c := map_option trim (address_in input) \<rparr>),
      setClients ((getClients st)[i := (getClients st ! i)
             \<lparr> name_c := trim (name_in input),
               email_c := trim (email_in input),
               company_c := map_option trim (company_in input),
               phone_c := map_option trim (phone_in input),
               address_c := map_option trim (address_in input) \<rparr>]) st)"
  by (simp add: updateClient_def Let_def)

text \<open>
  C10: for an existing client and a valid input, \<^verbatim>\<open>clientService.update\<close> stores and
  returns, at the first position holding the id, a client whose \<open>company\<close>, \<open>phone\<close>
  and \<open>address\<close> are the trimmed values of the input: a field that the input omits is
  undefined in the result whatever the existing record held. \<open>id\<close> and \<open>createdAt\<close>
  are those of the existing record.
\<close>

theorem updateClient_replaces_optional_fields:
  assumes "valid (validateClient input)"
    and "\<exists>c\<in>set (getClients st). id_c c = cid"
  shows "\<exists>i<length (getClients st).
           id_c (getClients st ! i) = cid \<and> (\<forall>j<i. id_c (getClients st ! j) \<noteq> cid)
         \<and> fst (updateClient cid input st) = Inr (getClients (snd (updateClient cid input st)) ! i)
         \<and> company_c (getClients (snd (updateClient cid input st)) ! i)
             = map_option trim (company_in input)
         \<and> phone_c (getClients (snd (updateClient cid input st)) ! i)
             = map_option trim (phone_in input)
         \<and> address_c (getClients (snd (updateClient cid input st)) ! i)
             = map_option trim (address_in input)
         \<and> (company_in input = None \<longrightarrow>
               company_c (getClients (snd (updateClient cid input st)) ! i) = None)
         \<and> (phone_in input = None \<longrightarrow>
               phone_c (getClients (snd (updateClient cid input st)) ! i) = None)
         \<and> (address_in input = None \<longrightarrow>
               address_c (getClients (snd (updateClient cid input st)) ! i) = None)
         \<and> id_c (getClients (snd (updateClient cid input st)) ! i) = id_c (getClients st ! i)
         \<and> createdAt_c (getClients (snd (updateClient cid input st)) ! i)
             = createdAt_c (getClients st ! i)"
proof -
  from assms(2) obtain i where i: "findIndex (\<lambda>c. id_c c = cid) (getClients st) = Some i"
    using findIndex_ex [of "getClients st" "\<lambda>c. id_c c = cid"] by blast
  from findIndex_Some [OF i] have len: "i < length (getClients st)"
    and idi: "id_c (getClients st ! i) = cid"
    and first: "\<forall>j<i. id_c (getClients st ! j) \<noteq> cid"
    by simp_all
  from len have av: "available st"
    by (rule getClients_nonempty)
  show ?thesis
    using len idi first av
    by (intro exI [of _ i]) (simp add: updateClient_found [OF assms(1) i] getClients_setClients)
qed

theorem updateClient_replaces_optional_fields_witness:
  "company_c (getClients (emptyStorage\<lparr> clients_item :=
       Some [mockClient\<lparr> company_c := Some ''Acme Inc'' \<rparr>] \<rparr>) ! 0) = Some ''Acme Inc''
   \<and> (\<exists>i. company_c (getClients (snd (updateClient ''client_1''
         \<lparr> name_in = ''Updated'', email_in = ''updated@example.com'', company_in = None,
           phone_in = None, address_in = None \<rparr>
         (emptyStorage\<lparr> clients_item := Some [mockClient\<lparr> company_c := Some ''Acme Inc'' \<rparr>] \<rparr>))) ! i)
       = None)"
proof -
  let ?st = "emptyStorage\<lparr> clients_item := Some [mockClient\<lparr> company_c := Some ''Acme Inc'' \<rparr>] \<rparr>"
  let ?input = "\<lparr> name_in = ''Updated'', email_in = ''updated@example.com'', company_in = None,
           phone_in = None, address_in = None \<rparr>"
  have cl: "getClients ?st = [mockClient\<lparr> company_c := Some ''Acme Inc'' \<rparr>]"
    by (simp add: getClients_def emptyStorage_def)
  have v: "valid (validateClient ?input)"
    by (simp add: validateClient_def trim_def isWhitespace_def)
  have h: "\<exists>c\<in>set (getClients ?st). id_c c = ''client_1''"
    unfolding cl by (simp add: mockClient_def)
  have old: "company_c (getClients ?st ! 0) = Some ''Acme Inc''"
    unfolding cl by simp
  from updateClient_replaces_optional_fields [OF v h] old show ?thesis
    by auto
qed

subsection \<open>Metrics\<close>












subsection \<open>Invoice number generator\<close>














subsection \<open>Duplication\<close>



lemma getInvoices_setCounterData: "getInvoices (setCounterData cd st) = getInvoices st"
  by (simp add: getInvoices_def setCounterData_def)





subsection \<open>Validation\<close>

lemma trim_Nil: "trim [] = []"
  by (simp add: trim_def)

text \<open>
  C5 (as stated, refuted): \<^verbatim>\<open>create\<close> called with an empty \<open>clientId\<close> throws
  \<^verbatim>\<open>Validation failed: {"clientId":"Please select a client"}\<close>.
\<close>

theorem create_throws_validation_counterexample:
  "\<not> valid (validate (testInput\<lparr> clientId_in := '''' \<rparr>))
   \<and> create testEnv (testInput\<lparr> clientId_in := '''' \<rparr>) [mockClient] emptyStorage
       = (Inl (ValidationFailed [(''clientId'', ''Please select a client'')]), emptyStorage)"
  by code_simp

text \<open>
  C5 (amended): \<^verbatim>\<open>validate\<close> of the invoice service and of the client service
  return a result whose \<open>valid\<close> flag says that \<open>errors\<close> is empty; \<open>errors\<close> has the key
  \<open>clientId\<close> exactly when the client id is empty or blank, the key \<open>lineItems\<close> exactly
  when no line item has a non-blank description (in particular when there is none), the
  key \<open>name\<close> (\<open>email\<close>) exactly when the name (email) is empty or blank. \<^verbatim>\<open>create\<close> and
  \<^verbatim>\<open>update\<close> of both services, called with an input that \<^verbatim>\<open>validate\<close> rejects, throw
  the validation error carrying these field errors, and leave the store as it was.
\<close>

theorem validation_reporting:
  "valid (validate input) = (errors (validate input) = [])
   \<and> (map_of (errors (validate input)) ''clientId'' \<noteq> None
        \<longleftrightarrow> trim (clientId_in input) = [])
   \<and> (map_of (errors (validate input)) ''lineItems'' \<noteq> None
        \<longleftrightarrow> \<not> list_ex (\<lambda>item. trim (description item) \<noteq> []) (lineItems_in input))
   \<and> (\<not> valid (validate input) \<longrightarrow>
          create e input clients st = (Inl (ValidationFailed (errors (validate input))), st)
        \<and> update e iid input clients st = (Inl (ValidationFailed (errors (validate input))), st))
   \<and> valid (validateClient cinput) = (errors (validateClient cinput) = [])
   \<and> (map_of (errors (validateClient cinput)) ''name'' \<noteq> None
        \<longleftrightarrow> trim (name_in cinput) = [])
   \<and> (map_of (errors (validateClient cinput)) ''email'' \<noteq> None
        \<longleftrightarrow> trim (email_in cinput) = [])
   \<and> (\<not> valid (validateClient cinput) \<longrightarrow>
          createClient e cinput st = (Inl (ValidationFailed (errors (validateClient cinput))), st)
        \<and> updateClient cid cinput st
            = (Inl (ValidationFailed (errors (validateClient cinput))), st))"
proof -
  have blank: "list_ex (\<lambda>item. description item \<noteq> [] \<and> trim (description item) \<noteq> []) xs
             = list_ex (\<lambda>item. trim (description item) \<noteq> []) xs" for xs :: "LineItemInput list"
    by (induction xs) (auto simp: trim_Nil)
  have v1: "valid (validate input) = (errors (validate input) = [])"
    by (simp add: validate_def Let_def)
  have v2: "map_of (errors (validate input)) ''clientId'' \<noteq> None \<longleftrightarrow> trim (clientId_in input) = []"
    by (auto simp: validate_def Let_def trim_Nil)
  have v3: "map_of (errors (validate input)) ''lineItems'' \<noteq> None
        \<longleftrightarrow> \<not> list_ex (\<lambda>item. trim (description item) \<noteq> []) (lineItems_in input)"
    by (cases "lineItems_in input") (auto simp: validate_def Let_def blank)
  have v4: "\<not> valid (validate input) \<longrightarrow>
          create e input clients st = (Inl (ValidationFailed (errors (validate input))), st)
        \<and> update e iid input clients st = (Inl (ValidationFailed (errors (validate input))), st)"
    by (simp add: create_def update_def Let_def)
  have c1: "valid (validateClient cinput) = (errors (validateClient cinput) = [])"
    by (simp add: validateClient_def Let_def)
  have c2: "map_of (errors (validateClient cinput)) ''name'' \<noteq> None \<longleftrightarrow> trim (name_in cinput) = []"
    by (auto simp: validateClient_def Let_def trim_Nil)
  have c3: "map_of (errors (validateClient cinput)) ''email'' \<noteq> None \<longleftrightarrow> trim (email_in cinput) = []"
    by (auto simp: validateClient_def Let_def trim_Nil)
  have c4: "\<not> valid (validateClient cinput) \<longrightarrow>
          createClient e cinput st = (Inl (ValidationFailed (errors (validateClient cinput))), st)
        \<and> updateClient cid cinput st
            = (Inl (ValidationFailed (errors (validateClient cinput))), st)"
    by (simp add: createClient_def updateClient_def Let_def)
  from v1 v2 v3 v4 c1 c2 c3 c4 show ?thesis
    by blast
qed

theorem validation_reporting_witness:
  "\<not> valid (validate (testInput\<lparr> lineItems_in := [\<lparr> description = ''  '', quantity = 1, rate = 100 \<rparr>] \<rparr>))
   \<and> map_of (errors (validate (testInput\<lparr> lineItems_in :=
         [\<lparr> description = ''  '', quantity = 1, rate = 100 \<rparr>] \<rparr>))) ''lineItems'' \<noteq> None
   \<and> fst (update testEnv ''invoice_1''
         (testInput\<lparr> lineItems_in := [\<lparr> description = ''  '', quantity = 1, rate = 100 \<rparr>] \<rparr>)
         [mockClient] sentStorage)
      = Inl (ValidationFailed (errors (validate (testInput\<lparr> lineItems_in :=
         [\<lparr> description = ''  '', quantity = 1, rate = 100 \<rparr>] \<rparr>))))"
proof -
  let ?input = "testInput\<lparr> lineItems_in := [\<lparr> description = ''  '', quantity = 1, rate = 100 \<rparr>] \<rparr>"
  have blank: "\<not> list_ex (\<lambda>item. trim (description item) \<noteq> []) (lineItems_in ?input)"
    by (simp add: trim_def isWhitespace_def)
  from validation_reporting [of ?input testEnv "[mockClient]" sentStorage "''invoice_1''"]
  have a: "map_of (errors (validate ?input)) ''lineItems'' \<noteq> None
        \<longleftrightarrow> \<not> list_ex (\<lambda>item. trim (description item) \<noteq> []) (lineItems_in ?input)"
    and b: "valid (validate ?input) = (errors (validate ?input) = [])"
    and c: "\<not> valid (validate ?input) \<longrightarrow>
          update testEnv ''invoice_1'' ?input [mockClient] sentStorage
            = (Inl (ValidationFailed (errors (validate ?input))), sentStorage)"
    by blast+
  from a blank have e: "map_of (errors (validate ?input)) ''lineItems'' \<noteq> None"
    by blast
  then have "errors (validate ?input) \<noteq> []"
    by auto
  with b have nv: "\<not> valid (validate ?input)"
    by simp
  with c e show ?thesis
    by simp
qed

subsection \<open>Status transitions\<close>

lemma list_all2_update_refl:
  assumes "\<And>x. R x x" and "i < length xs \<Longrightarrow> R (xs ! i) y"
  shows "list_all2 R xs (xs[i := y])"
proof (cases "i < length xs")
  case True
  with assms show ?thesis
    by (auto simp: list_all2_conv_all_nth nth_list_update)
next
  case False
  then have "xs[i := y] = xs"
    by (intro list_update_beyond) simp
  with assms(1) show ?thesis
    by (simp add: list_all2_refl)
qed

lemma list_all2_map_refl:
  assumes "\<And>x. R x (f x)"
  shows "list_all2 R xs (map f xs)"
  using assms by (simp add: list_all2_conv_all_nth)

lemma stored_after_update:
  "i < length (getInvoices st) \<Longrightarrow>
   getInvoices (setInvoices ((getInvoices st)[i := y]) st) = (getInvoices st)[i := y]"
  by (simp add: getInvoices_setInvoices getInvoices_nonempty)

lemma markAsPaid_stored:
  "getInvoices (snd (markAsPaid iid st)) =
     (case findIndex (\<lambda>invoice. id_inv invoice = iid) (getInvoices st) of
        None \<Rightarrow> getInvoices st
      | Some i \<Rightarrow> (getInvoices st)[i := (getInvoices st ! i)\<lparr> status := ''paid'' \<rparr>])"
  by (auto simp: markAsPaid_def Let_def stored_after_update split: option.splits
      dest: findIndex_Some)

lemma markAsSent_stored:
  "getInvoices (snd (markAsSent iid st)) =
     (case findIndex (\<lambda>invoice. id_inv invoice = iid) (getInvoices st) of
        None \<Rightarrow> getInvoices st
      | Some i \<Rightarrow> (getInvoices st)[i := (getInvoices st ! i)\<lparr> status := ''sent'' \<rparr>])"
  by (auto simp: markAsSent_def Let_def stored_after_update split: option.splits
      dest: findIndex_Some)

lemma update_stored:
  "getInvoices (snd (update e iid input clients st)) = getInvoices st
   \<or> (\<exists>i y. i < length (getInvoices st)
         \<and> getInvoices (snd (update e iid input clients st)) = (getInvoices st)[i := y]
         \<and> id_inv y = id_inv (getInvoices st ! i)
         \<and> status y = statusOr (status_in input) (status (getInvoices st ! i)))"
proof (cases "valid (validate input)")
  case False
  then show ?thesis by (simp add: update_def Let_def)
next
  case True
  show ?thesis
  proof (cases "findIndex (\<lambda>invoice. id_inv invoice = iid) (getInvoices st)")
    case None
    with True show ?thesis by (simp add: update_def Let_def)
  next
    case (Some i)
    from findIndex_Some [OF Some] have len: "i < length (getInvoices st)" by simp
    show ?thesis
    proof (cases "find (\<lambda>c. id_c c = clientId_in input) clients")
      case None
      with True Some show ?thesis by (simp add: update_def Let_def)
    next
      case (Some cl)
      define y where "y = (getInvoices st ! i)
               \<lparr>clientId := clientId_in input, client := cl,
                  status := statusOr (status_in input) (status (getInvoices st ! i)),
                  issueDate := issueDate_in input,
                  dueDate := dueDate_in input,
                  lineItems := createLineItems e (lineItems_in input),
                  subtotal := subtotal_t (calculateTotals (lineItems_in input) None),
                  tax := tax_t (calculateTotals (lineItems_in input) None),
                  total := total_t (calculateTotals (lineItems_in input) None),
                  notes_inv := notes_in input\<rparr>"
      from True \<open>findIndex _ _ = Some i\<close> len Some
      have "getInvoices (snd (update e iid input clients st)) = (getInvoices st)[i := y]"
        by (simp add: update_def Let_def stored_after_update y_def)
      moreover have "id_inv y = id_inv (getInvoices st ! i)"
        "status y = statusOr (status_in input) (status (getInvoices st ! i))"
        by (simp_all add: y_def)
      ultimately show ?thesis
        using len by blast
    qed
  qed
qed

text \<open>
  C6 (as stated, refuted): starting from the empty store, \<^verbatim>\<open>create\<close> stores a \<open>sent\<close>
  invoice; \<^verbatim>\<open>update\<close> with the status \<open>draft\<close> in its input stores that invoice, same
  id, as \<open>draft\<close>; and \<^verbatim>\<open>markAsSent\<close> after \<^verbatim>\<open>markAsPaid\<close> takes it from \<open>paid\<close> back
  to \<open>sent\<close>.
\<close>

theorem status_overwrite_counterexample:
  "map (\<lambda>invoice. (id_inv invoice, status invoice)) (getInvoices createdStorage)
     = [(''invoice_new'', ''sent'')]
   \<and> map (\<lambda>invoice. (id_inv invoice, status invoice))
       (getInvoices (snd (update testEnv ''invoice_new'' (testInput\<lparr> status_in := Some ''draft'' \<rparr>)
          [mockClient] createdStorage)))
     = [(''invoice_new'', ''draft'')]
   \<and> map (\<lambda>invoice. (id_inv invoice, status invoice))
       (getInvoices (snd (markAsPaid ''invoice_new'' createdStorage)))
     = [(''invoice_new'', ''paid'')]
   \<and> map (\<lambda>invoice. (id_inv invoice, status invoice))
       (getInvoices (snd (markAsSent ''invoice_new'' (snd (markAsPaid ''invoice_new'' createdStorage)))))
     = [(''invoice_new'', ''sent'')]"
  by code_simp

text \<open>
  C6 (amended): \<^verbatim>\<open>markAsPaid\<close>, \<^verbatim>\<open>markAsSent\<close>, \<^verbatim>\<open>checkOverdue\<close>, and \<^verbatim>\<open>update\<close>
  with the status left out of its input (or empty), keep every invoice at its position
  with its id and turn no invoice that was not a \<open>draft\<close> into a \<open>draft\<close>;
  \<^verbatim>\<open>markAsPaid\<close>, \<^verbatim>\<open>checkOverdue\<close> and such an \<^verbatim>\<open>update\<close> leave every \<open>paid\<close>
  invoice \<open>paid\<close>. (\<^verbatim>\<open>update\<close> with a status in its input, and \<^verbatim>\<open>markAsSent\<close>, overwrite
  the status whatever it was.)
\<close>

theorem status_transitions:
  "noRevertToDraft (getInvoices st) (getInvoices (snd (markAsPaid iid st)))
   \<and> paidStaysPaid (getInvoices st) (getInvoices (snd (markAsPaid iid st)))
   \<and> noRevertToDraft (getInvoices st) (getInvoices (snd (markAsSent iid st)))
   \<and> noRevertToDraft invoices (fst (checkOverdue e invoices st))
   \<and> paidStaysPaid invoices (fst (checkOverdue e invoices st))
   \<and> (status_in input = None \<or> status_in input = Some [] \<longrightarrow>
        noRevertToDraft (getInvoices st) (getInvoices (snd (update e iid input clients st)))
      \<and> paidStaysPaid (getInvoices st) (getInvoices (snd (update e iid input clients st))))"
proof -
  have p1: "noRevertToDraft (getInvoices st) (getInvoices (snd (markAsPaid iid st)))"
    unfolding noRevertToDraft_def markAsPaid_stored
    by (auto split: option.splits intro!: list_all2_update_refl list_all2_refl)
  have p2: "paidStaysPaid (getInvoices st) (getInvoices (snd (markAsPaid iid st)))"
    unfolding paidStaysPaid_def markAsPaid_stored
    by (auto split: option.splits intro!: list_all2_update_refl list_all2_refl)
  have s1: "noRevertToDraft (getInvoices st) (getInvoices (snd (markAsSent iid st)))"
    unfolding noRevertToDraft_def markAsSent_stored
    by (auto split: option.splits intro!: list_all2_update_refl list_all2_refl)
  have c1: "noRevertToDraft invoices (fst (checkOverdue e invoices st))"
    unfolding noRevertToDraft_def checkOverdue_fst
    by (rule list_all2_map_refl) simp
  have c2: "paidStaysPaid invoices (fst (checkOverdue e invoices st))"
    unfolding paidStaysPaid_def checkOverdue_fst
    by (rule list_all2_map_refl) (simp add: isOverdue_def)
  have u: "noRevertToDraft (getInvoices st) (getInvoices (snd (update e iid input clients st)))
      \<and> paidStaysPaid (getInvoices st) (getInvoices (snd (update e iid input clients st)))"
    if omitted: "status_in input = None \<or> status_in input = Some []"
  proof -
    from omitted have keep: "statusOr (status_in input) s = s" for s
      by (auto simp: statusOr_def)
    from update_stored [of e iid input clients st] show ?thesis
    proof
      assume "getInvoices (snd (update e iid input clients st)) = getInvoices st"
      then show ?thesis
        by (simp add: noRevertToDraft_def paidStaysPaid_def list_all2_refl)
    next
      assume "\<exists>i y. i < length (getInvoices st)
         \<and> getInvoices (snd (update e iid input clients st)) = (getInvoices st)[i := y]
         \<and> id_inv y = id_inv (getInvoices st ! i)
         \<and> status y = statusOr (status_in input) (status (getInvoices st ! i))"
      then obtain i y where iy: "i < length (getInvoices st)"
        "getInvoices (snd (update e iid input clients st)) = (getInvoices st)[i := y]"
        "id_inv y = id_inv (getInvoices st ! i)" "status y = status (getInvoices st ! i)"
        by (auto simp: keep)
      then show ?thesis
        by (auto simp: noRevertToDraft_def paidStaysPaid_def intro!: list_all2_update_refl)
    qed
  qed
  from p1 p2 s1 c1 c2 u show ?thesis
    by blast
qed


theorem status_transitions_witness:
  "status_in (testInput\<lparr> status_in := None \<rparr>) = None
   \<and> map status (getInvoices sentStorage) = [''sent'']
   \<and> ''draft'' \<notin> set (map status (getInvoices (snd (update testEnv ''invoice_1''
         (testInput\<lparr> status_in := None \<rparr>) [mockClient] sentStorage))))
   \<and> ''draft'' \<notin> set (map status (getInvoices (snd (markAsSent ''invoice_1'' sentStorage))))"
proof -
  let ?input = "testInput\<lparr> status_in := None \<rparr>"
  have h: "status_in ?input = None \<or> status_in ?input = Some []"
    by simp
  have old: "getInvoices sentStorage = [sentInvoice]"
    by (simp add: getInvoices_def sentStorage_def)
  have sent: "status sentInvoice = ''sent''"
    by (simp add: sentInvoice_def)
  from status_transitions [where st = sentStorage and iid = "''invoice_1''" and input = ?input
      and e = testEnv and clients = "[mockClient]" and invoices = "[]"] h
  have "noRevertToDraft (getInvoices sentStorage)
          (getInvoices (snd (update testEnv ''invoice_1'' ?input [mockClient] sentStorage)))"
    and "noRevertToDraft (getInvoices sentStorage)
          (getInvoices (snd (markAsSent ''invoice_1'' sentStorage)))"
    by blast+
  then have "''draft'' \<notin> set (map status (getInvoices (snd (update testEnv ''invoice_1''
         ?input [mockClient] sentStorage))))"
    and "''draft'' \<notin> set (map status (getInvoices (snd (markAsSent ''invoice_1'' sentStorage))))"
    unfolding old noRevertToDraft_def using sent
    by (auto simp: list_all2_Cons1)
  with old sent show ?thesis
    by simp
qed

subsection \<open>Failing operations\<close>

text \<open>
  C8 (as stated, refuted): when the insertion of the line items fails, the Supabase-backed
  \<^verbatim>\<open>create\<close> throws after its compensating delete, and the user's row of
  \<^verbatim>\<open>invoice_sequences\<close>, advanced by \<^verbatim>\<open>generateInvoiceNumber\<close> at the start of the
  call, stays advanced: the persisted state is not what it was before the call.
\<close>

theorem create_rollback_counterexample:
  "fst (create_supabase lineItemsFail testInput testDatabase) = Inl DatabaseError
   \<and> invoice_sequences_tbl testDatabase = [\<lparr> user_id_s = ''user_1'', last_number = 5 \<rparr>]
   \<and> invoice_sequences_tbl (snd (create_supabase lineItemsFail testInput testDatabase))
       = [\<lparr> user_id_s = ''user_1'', last_number = 6 \<rparr>]"
  by code_simp

lemma generateInvoiceNumber_tables:
  "invoices_tbl (snd (generateInvoiceNumber sb db)) = invoices_tbl db
   \<and> line_items_tbl (snd (generateInvoiceNumber sb db)) = line_items_tbl db"
  by (simp add: generateInvoiceNumber_def Let_def split: option.splits)

lemma filter_absent: "x \<notin> f ` set xs \<Longrightarrow> filter (\<lambda>r. f r \<noteq> x) xs = xs"
  by (induction xs) auto

lemma create_supabase_rollback:
  assumes "lineItemsInsertError sb" and "\<not> rollbackDeleteError sb"
    and "lineItems_in input \<noteq> []"
    and "rowId sb \<notin> id_r ` set (invoices_tbl db)"
  shows "isl (fst (create_supabase sb input db))
       \<and> invoices_tbl (snd (create_supabase sb input db)) = invoices_tbl db
       \<and> line_items_tbl (snd (create_supabase sb input db)) = line_items_tbl db
       \<and> invoice_sequences_tbl (snd (create_supabase sb input db))
           = invoice_sequences_tbl (snd (generateInvoiceNumber sb db))"
proof (cases "user sb")
  case None
  then show ?thesis
    by (simp add: create_supabase_def generateInvoiceNumber_def)
next
  case (Some userId)
  obtain r db1 where g: "generateInvoiceNumber sb db = (r, db1)"
    by (cases "generateInvoiceNumber sb db")
  from generateInvoiceNumber_tables [of sb db] g
  have t: "invoices_tbl db1 = invoices_tbl db" "line_items_tbl db1 = line_items_tbl db"
    by simp_all
  show ?thesis
  proof (cases r)
    case (Inl err)
    with Some g t show ?thesis
      by (simp add: create_supabase_def)
  next
    case (Inr invoiceNumber)
    with Some g t assms show ?thesis
      by (simp add: create_supabase_def Let_def filter_absent)
  qed
qed

lemma backend_invoice_failures:
  "(isl (fst (create e input clients st)) \<longrightarrow> snd (create e input clients st) = st)
   \<and> (isl (fst (update e iid input clients st)) \<longrightarrow> snd (update e iid input clients st) = st)
   \<and> (isl (fst (deleteInvoice iid st)) \<longrightarrow> snd (deleteInvoice iid st) = st)
   \<and> (isl (fst (markAsPaid iid st)) \<longrightarrow> snd (markAsPaid iid st) = st)
   \<and> (isl (fst (markAsSent iid st)) \<longrightarrow> snd (markAsSent iid st) = st)
   \<and> (isl (fst (duplicate e iid clients st)) \<longrightarrow> snd (duplicate e iid clients st) = st)"
  by (simp add: create_def update_def deleteInvoice_def markAsPaid_def markAsSent_def
      duplicate_def Let_def split: option.splits prod.splits)

lemma backend_client_failures:
  "(isl (fst (createClient e cinput st)) \<longrightarrow> snd (createClient e cinput st) = st)
   \<and> (isl (fst (updateClient cid cinput st)) \<longrightarrow> snd (updateClient cid cinput st) = st)
   \<and> (isl (fst (deleteClient cid st)) \<longrightarrow> snd (deleteClient cid st) = st)"
  by (simp add: createClient_def updateClient_def deleteClient_def Let_def split: option.splits)

text \<open>
  C8 (amended): an operation of the invoice or client service over the browser store
  that throws (validation failure in \<^verbatim>\<open>create\<close> or \<^verbatim>\<open>update\<close>, unknown invoice or
  client id in \<^verbatim>\<open>update\<close>, \<^verbatim>\<open>delete\<close>, \<^verbatim>\<open>markAsPaid\<close>, \<^verbatim>\<open>markAsSent\<close> or
  \<^verbatim>\<open>duplicate\<close>) leaves the whole store, the sequence counter included, exactly as it
  was. In the Supabase-backed \<^verbatim>\<open>create\<close>, when the insertion of the line items fails
  and the compensating delete succeeds, the call throws and the tables \<^verbatim>\<open>invoices\<close> and
  \<^verbatim>\<open>line_items\<close> are as before the call (the id of the inserted row being new); the row
  of \<^verbatim>\<open>invoice_sequences\<close> keeps the number that the call took.
\<close>

theorem failures_leave_store_unchanged:
  "(isl (fst (create e input clients st)) \<longrightarrow> snd (create e input clients st) = st)
   \<and> (isl (fst (update e iid input clients st)) \<longrightarrow> snd (update e iid input clients st) = st)
   \<and> (isl (fst (deleteInvoice iid st)) \<longrightarrow> snd (deleteInvoice iid st) = st)
   \<and> (isl (fst (markAsPaid iid st)) \<longrightarrow> snd (markAsPaid iid st) = st)
   \<and> (isl (fst (markAsSent iid st)) \<longrightarrow> snd (markAsSent iid st) = st)
   \<and> (isl (fst (duplicate e iid clients st)) \<longrightarrow> snd (duplicate e iid clients st) = st)
   \<and> (isl (fst (createClient e cinput st)) \<longrightarrow> snd (createClient e cinput st) = st)
   \<and> (isl (fst (updateClient cid cinput st)) \<longrightarrow> snd (updateClient cid cinput st) = st)
   \<and> (isl (fst (deleteClient cid st)) \<longrightarrow> snd (deleteClient cid st) = st)
   \<and> (lineItemsInsertError sb \<and> \<not> rollbackDeleteError sb \<and> lineItems_in input \<noteq> []
        \<and> rowId sb \<notin> id_r ` set (invoices_tbl db) \<longrightarrow>
          isl (fst (create_supabase sb input db))
        \<and> invoices_tbl (snd (create_supabase sb input db)) = invoices_tbl db
        \<and> line_items_tbl (snd (create_supabase sb input db)) = line_items_tbl db
        \<and> invoice_sequences_tbl (snd (create_supabase sb input db))
            = invoice_sequences_tbl (snd (generateInvoiceNumber sb db)))"
  using backend_invoice_failures [of e input clients st iid]
    backend_client_failures [of e cinput st cid]
    create_supabase_rollback [of sb input db]
  by blast

theorem failures_leave_store_unchanged_witness:
  "isl (fst (markAsPaid ''missing'' sentStorage))
   \<and> snd (markAsPaid ''missing'' sentStorage) = sentStorage
   \<and> isl (fst (duplicate testEnv ''invoice_1'' [] sentStorage))
   \<and> snd (duplicate testEnv ''invoice_1'' [] sentStorage) = sentStorage
   \<and> lineItemsInsertError lineItemsFail
   \<and> isl (fst (create_supabase lineItemsFail testInput testDatabase))
   \<and> invoices_tbl (snd (create_supabase lineItemsFail testInput testDatabase)) = []"
proof -
  have a: "isl (fst (markAsPaid ''missing'' sentStorage))"
    by (simp add: markAsPaid_def getInvoices_def sentStorage_def sentInvoice_def)
  have b: "isl (fst (duplicate testEnv ''invoice_1'' [] sentStorage))"
    by (simp add: duplicate_def getInvoices_def sentStorage_def sentInvoice_def)
  have c: "lineItemsInsertError lineItemsFail \<and> \<not> rollbackDeleteError lineItemsFail
      \<and> lineItems_in testInput \<noteq> []
      \<and> rowId lineItemsFail \<notin> id_r ` set (invoices_tbl testDatabase)"
    by (simp add: lineItemsFail_def testInput_def testDatabase_def)
  have d: "invoices_tbl testDatabase = []"
    by (simp add: testDatabase_def)
  from failures_leave_store_unchanged [where st = sentStorage and iid = "''missing''"]
  have 1: "snd (markAsPaid ''missing'' sentStorage) = sentStorage"
    using a by blast
  from failures_leave_store_unchanged [where st = sentStorage and iid = "''invoice_1''"
      and e = testEnv and clients = "[]"]
  have 2: "snd (duplicate testEnv ''invoice_1'' [] sentStorage) = sentStorage"
    using b by blast
  from failures_leave_store_unchanged [where sb = lineItemsFail and input = testInput
      and db = testDatabase] c
  have 3: "isl (fst (create_supabase lineItemsFail testInput testDatabase))
      \<and> invoices_tbl (snd (create_supabase lineItemsFail testInput testDatabase))
          = invoices_tbl testDatabase"
    by blast
  from a b c 1 2 3 d show ?thesis
    by simp
qed

end
